theory Spec2Isabelle
  imports Complex_Main
begin

section \<open>Section capture and export pipeline of the Powerhouse dashboard (app.py)\<close>

text \<open>
  The development embeds the part of \<^verbatim>\<open>app.py\<close> that records the charts and KPI cards
  rendered under a named section and exports them as a one-page PDF, a narrative
  document and a slide deck. Python floats are modelled by exact rationals, a missing
  number (None, NaN) by \<open>None\<close>; binary rounding and infinities are outside the model.
  Python strings are byte lists in UTF-8, so a non-ASCII character is spelled by its bytes.
\<close>

subsection \<open>Chart and card data model\<close>

datatype month = Jan | Feb | Mar | Apr | May | Jun | Jul | Aug | Sep | Oct | Nov | Dec

text \<open>
  An x value is classified by what \<^verbatim>\<open>pd.to_datetime\<close> does with it: \<open>XDate y m\<close> is a value
  it converts to a timestamp of year \<open>y\<close> and month \<open>m\<close>; \<open>XText s\<close> is a value on which it
  raises and whose \<^verbatim>\<open>str()\<close> is \<open>s\<close>.
\<close>

datatype xval = XDate nat month | XText string

text \<open>
  A y value is classified by its conversion to a float: \<open>Num q\<close> is a finite number,
  \<open>Missing\<close> is None or NaN, \<open>Other\<close> is an object with no numeric reading (pandas coerces
  it to NaN, numpy raises on it).
\<close>

datatype pyval = Num rat | Missing | Other

record trace =
  tr_type :: string
  tr_name :: "string option"
  tr_x :: "xval list option"
  tr_y :: "pyval list option"
  tr_labels :: "string list option"
  tr_values :: "pyval list option"

text \<open>\<open>fig_title\<close> is \<^verbatim>\<open>fig.layout.title.text\<close>, \<open>fig_data\<close> is \<^verbatim>\<open>fig.data\<close>.\<close>

record fig =
  fig_title :: "string option"
  fig_data :: "trace list"

record card =
  card_label :: string
  card_value :: string
  card_delta :: string
  card_delta_color :: string

text \<open>One entry of \<^verbatim>\<open>SECTION_CARDS[name]\<close>: the dict \<^verbatim>\<open>{"cards": ..., "title": ...}\<close>.\<close>

record card_group =
  cg_cards :: "card list"
  cg_title :: string

subsection \<open>Section capture registry\<close>

text \<open>
  The three module globals. A \<^verbatim>\<open>defaultdict(list)\<close> is a partial map whose missing keys
  read as the empty list; \<^verbatim>\<open>CURRENT_SECTION[0]\<close> is the single current-section slot.
\<close>

record registry =
  SECTION_FIGS :: "string \<rightharpoonup> fig list"
  SECTION_CARDS :: "string \<rightharpoonup> card_group list"
  CURRENT_SECTION :: string

definition registry_init :: registry where
  "registry_init = \<lparr>SECTION_FIGS = Map.empty, SECTION_CARDS = Map.empty, CURRENT_SECTION = ''''\<rparr>"

text \<open>\<^verbatim>\<open>d.get(name, [])\<close>, and \<^verbatim>\<open>d[name]\<close> on a defaultdict: both read a missing key as [].\<close>

definition dict_get :: "(string \<rightharpoonup> 'a list) \<Rightarrow> string \<Rightarrow> 'a list" where
  "dict_get d name = (case d name of None \<Rightarrow> [] | Some l \<Rightarrow> l)"

definition begin_section :: "string \<Rightarrow> registry \<Rightarrow> registry" where
  "begin_section name st =
     st\<lparr>CURRENT_SECTION := name,
        SECTION_FIGS := (SECTION_FIGS st)(name \<mapsto> []),
        SECTION_CARDS := (SECTION_CARDS st)(name \<mapsto> [])\<rparr>"

text \<open>\<^verbatim>\<open>CURRENT_SECTION[0] or "Page"\<close>: the empty name is falsy.\<close>

definition active_name :: "registry \<Rightarrow> string" where
  "active_name st = (if CURRENT_SECTION st \<noteq> [] then CURRENT_SECTION st else ''Page'')"

definition capture_fig :: "fig \<Rightarrow> registry \<Rightarrow> registry" where
  "capture_fig f st =
     (let name = active_name st
      in st\<lparr>SECTION_FIGS := (SECTION_FIGS st)(name \<mapsto> dict_get (SECTION_FIGS st) name @ [f])\<rparr>)"

definition capture_metric_cards :: "card list \<Rightarrow> string \<Rightarrow> registry \<Rightarrow> registry" where
  "capture_metric_cards cards_data section_title st =
     (let name = active_name st
      in st\<lparr>SECTION_CARDS := (SECTION_CARDS st)(name \<mapsto>
              dict_get (SECTION_CARDS st) name @ [\<lparr>cg_cards = cards_data, cg_title = section_title\<rparr>])\<rparr>)"

text \<open>The mutation surface of the registry, as a command language, and a render pass as a run.\<close>

datatype op = Begin string | CaptureFig fig | CaptureCards "card list" string

fun exec_op :: "op \<Rightarrow> registry \<Rightarrow> registry" where
  "exec_op (Begin name) st = begin_section name st"
| "exec_op (CaptureFig f) st = capture_fig f st"
| "exec_op (CaptureCards cs t) st = capture_metric_cards cs t st"

fun run :: "op list \<Rightarrow> registry \<Rightarrow> registry" where
  "run [] st = st"
| "run (o1 # os) st = run os (exec_op o1 st)"

text \<open>The consecutive \<^verbatim>\<open>capture_fig\<close> calls of a render pass.\<close>

fun capture_figs :: "fig list \<Rightarrow> registry \<Rightarrow> registry" where
  "capture_figs [] st = st"
| "capture_figs (f # fs) st = capture_figs fs (capture_fig f st)"

subsection \<open>Number formatting\<close>

definition em_dash :: string where
  "em_dash = [CHR 0xE2, CHR 0x80, CHR 0x94]"

definition en_dash :: string where
  "en_dash = [CHR 0xE2, CHR 0x80, CHR 0x93]"

definition bullet_mark :: string where
  "bullet_mark = [CHR 0xE2, CHR 0x80, CHR 0xA2]"

definition delta_mark :: string where
  "delta_mark = [CHR 0xCE, CHR 0x94]"

definition digit_char :: "nat \<Rightarrow> char" where
  "digit_char d = ''0123456789'' ! (d mod 10)"

fun digits :: "nat \<Rightarrow> string" where
  "digits n = (if n < 10 then [digit_char n] else digits (n div 10) @ [digit_char (n mod 10)])"

declare digits.simps [simp del]

text \<open>The \<^verbatim>\<open>,\<close> option of a format spec: a comma before every group of three digits.\<close>

fun commas_rev :: "string \<Rightarrow> string" where
  "commas_rev (a # b # c # d # rest) = a # b # c # CHR '','' # commas_rev (d # rest)"
| "commas_rev s = s"

definition group3 :: "string \<Rightarrow> string" where
  "group3 s = rev (commas_rev (rev s))"

text \<open>Decimal conversion rounds the magnitude to the nearest integer, ties to even.\<close>

definition round_half_even :: "rat \<Rightarrow> nat" where
  "round_half_even q =
     (let f = \<lfloor>q\<rfloor>; d = q - of_int f
      in nat (if d < 1 / 2 then f else if 1 / 2 < d then f + 1 else if even f then f else f + 1))"

text \<open>
  Python's fixed-point format \<^verbatim>\<open>{v:[+][,].pf}\<close>: \<open>p\<close> decimals, optional thousands separator,
  optional forced sign. A negative value keeps its sign when it rounds to zero.
\<close>

definition fmt_fixed :: "nat \<Rightarrow> bool \<Rightarrow> bool \<Rightarrow> rat \<Rightarrow> string" where
  "fmt_fixed p comma force_sign v =
     (let n = round_half_even (\<bar>v\<bar> * 10 ^ p);
          ip = digits (n div 10 ^ p);
          fp = digits (n mod 10 ^ p)
      in (if v < 0 then ''-'' else if force_sign then ''+'' else [])
         @ (if comma then group3 ip else ip)
         @ (if p = 0 then [] else ''.'' @ replicate (p - length fp) (CHR ''0'') @ fp))"



subsection \<open>Statistical narrative generator\<close>






text \<open>The non-missing values of a series, which the \<^verbatim>\<open>skipna\<close> reductions run over.\<close>

fun notna :: "rat option list \<Rightarrow> rat list" where
  "notna [] = []"
| "notna (None # s) = notna s"
| "notna (Some q # s) = q # notna s"








subsection \<open>Environment of the exporters\<close>

text \<open>
  What the exporters need from outside the repository: whether the optional libraries
  were imported, the chart renderer \<^verbatim>\<open>pio.to_image\<close> (called on the figure after
  \<^verbatim>\<open>_force_month_labels\<close> has rewritten its date labels, which never raises) and the image
  reader \<^verbatim>\<open>ImageReader(...).getSize()\<close>. \<open>None\<close> is a raised exception. A preset is
  (scale, width, height); the renderer called without a preset uses its defaults.
\<close>

type_synonym png = string

type_synonym preset = "nat \<times> nat \<times> nat"

record env =
  pptx_ok :: bool
  docx_ok :: bool
  pdf_merge_ok :: bool
  to_image :: "fig \<Rightarrow> preset option \<Rightarrow> png option"
  image_size :: "png \<Rightarrow> (nat \<times> nat) option"

datatype error = RuntimeError string | NameError string | RenderError

subsection \<open>Narrative document\<close>




subsection \<open>Slide deck\<close>

text \<open>\<^verbatim>\<open>_ppt_add_slide_number\<close>: the text of the footer box.\<close>

definition ppt_add_slide_number :: "nat \<Rightarrow> nat \<Rightarrow> string" where
  "ppt_add_slide_number idx total_n = digits idx @ '' / '' @ digits total_n"

text \<open>A slide: what distinguishes the four kinds, and the footer text last.\<close>

datatype slide =
    TitleSlide string string
  | GraphSlide "string option" png string
  | ExplainSlide string "string list" string
  | ConclusionSlide "string list" string

fun footer :: "slide \<Rightarrow> string" where
  "footer (TitleSlide t f) = f"
| "footer (GraphSlide c p f) = f"
| "footer (ExplainSlide c bs f) = f"
| "footer (ConclusionSlide ps f) = f"

datatype slide_kind = KTitle | KGraph | KExplain | KConclusion

fun kind :: "slide \<Rightarrow> slide_kind" where
  "kind (TitleSlide t f) = KTitle"
| "kind (GraphSlide c p f) = KGraph"
| "kind (ExplainSlide c bs f) = KExplain"
| "kind (ConclusionSlide ps f) = KConclusion"

definition ppt_add_title_slide :: "string \<Rightarrow> nat \<Rightarrow> nat \<Rightarrow> slide" where
  "ppt_add_title_slide title_text slide_idx total_n =
     TitleSlide title_text (ppt_add_slide_number slide_idx total_n)"

definition ppt_add_graph_slide :: "env \<Rightarrow> fig \<Rightarrow> string option \<Rightarrow> nat \<Rightarrow> nat \<Rightarrow> error + slide" where
  "ppt_add_graph_slide e fg caption slide_idx total_n =
     (case to_image e fg (Some (2, 1280, 720)) of
        Some png \<Rightarrow> Inr (GraphSlide caption png (ppt_add_slide_number slide_idx total_n))
      | None \<Rightarrow>
          (case to_image e fg None of
             Some png \<Rightarrow> Inr (GraphSlide caption png (ppt_add_slide_number slide_idx total_n))
           | None \<Rightarrow> Inl RenderError))"

text \<open>\<^verbatim>\<open>str(caption)\<close> inside the f-string of the explanation header.\<close>

definition caption_str :: "string option \<Rightarrow> string" where
  "caption_str c = (case c of Some s \<Rightarrow> s | None \<Rightarrow> ''None'')"

definition ppt_add_explain_slide :: "string option \<Rightarrow> string list \<Rightarrow> nat \<Rightarrow> nat \<Rightarrow> slide" where
  "ppt_add_explain_slide caption bullets slide_idx total_n =
     (let bullets' = (if bullets = [] then [''No data available.''] else bullets)
      in ExplainSlide (caption_str caption @ '' '' @ em_dash @ '' Explanation'')
           (map (\<lambda>t. bullet_mark @ '' '' @ t) (take 14 bullets'))
           (ppt_add_slide_number slide_idx total_n))"

text \<open>
  \<^verbatim>\<open>np.asarray(tr.y, dtype=float)\<close> followed by the \<^verbatim>\<open>np.isfinite\<close> filter. The conversion
  raises on an object with no numeric reading, and the handler then takes the empty array;
  an absent y gives a single NaN, which the filter drops.
\<close>

fun to_float :: "pyval \<Rightarrow> rat option option" where
  "to_float (Num q) = Some (Some q)"
| "to_float Missing = Some None"
| "to_float Other = None"

fun asarray_float :: "pyval list \<Rightarrow> rat option list option" where
  "asarray_float [] = Some []"
| "asarray_float (v # vs) =
     (case to_float v of
        None \<Rightarrow> None
      | Some a \<Rightarrow> (case asarray_float vs of None \<Rightarrow> None | Some as \<Rightarrow> Some (a # as)))"

definition finite_values :: "pyval list option \<Rightarrow> rat list" where
  "finite_values yopt =
     (case yopt of
        None \<Rightarrow> []
      | Some ys \<Rightarrow> (case asarray_float ys of None \<Rightarrow> [] | Some arr \<Rightarrow> notna arr))"

definition series_label :: "trace \<Rightarrow> string" where
  "series_label tr =
     (case tr_name tr of Some n \<Rightarrow> if n \<noteq> [] then n else ''Series'' | None \<Rightarrow> ''Series'')"

definition insufficient_point :: "string \<Rightarrow> string" where
  "insufficient_point name = name @ '': values shown; insufficient numeric history for stats.''"

definition trace_point :: "trace \<Rightarrow> string" where
  "trace_point tr =
     (let name = series_label tr; y = finite_values (tr_y tr)
      in case y of
           [] \<Rightarrow> insufficient_point name
         | v # vs \<Rightarrow>
             (let lst = last y;
                  mean = sum_list y / of_nat (length y);
                  mn = fold min vs v;
                  mx = fold max vs v;
                  delta = (if 1 < length y then last y - last (butlast y) else 0)
              in name @ '': latest '' @ fmt_fixed 0 True False lst
                 @ '' ('' @ delta_mark @ '' '' @ fmt_fixed 0 True True delta @ ''); ''
                 @ ''avg '' @ fmt_fixed 0 True False mean
                 @ '', range '' @ fmt_fixed 0 True False mn @ en_dash @ fmt_fixed 0 True False mx
                 @ ''.''))"

definition filler_point :: string where
  "filler_point = ''No significant variability detected; continue monitoring.''"

definition figure_summary_points :: "fig \<Rightarrow> string list" where
  "figure_summary_points fg =
     (let pts0 = (case fig_title fg of
                    Some t \<Rightarrow> if t \<noteq> [] then [''Overview: '' @ t] else []
                  | None \<Rightarrow> []);
          pts = pts0 @ map trace_point (fig_data fg)
      in if length pts < 2 then pts @ [filler_point] else pts)"

definition conclusion_points :: "string list" where
  "conclusion_points =
     [''Sustain reliability by addressing sources with highest month-to-month variance.'',
      ''Prioritize solar utilization in months with favorable yield and tariff differentials.'',
      ''Investigate outliers in PKR/kWh and kWh/kg to identify maintenance or efficiency actions.'',
      ''Share this deck with operations; align next month'' @ [CHR 0xE2, CHR 0x80, CHR 0x99]
        @ ''s targets to the median of the last 6 months.'']"

text \<open>The loop over the figures: two slides per figure, the index advanced after each.\<close>

fun add_fig_slides :: "env \<Rightarrow> fig list \<Rightarrow> nat \<Rightarrow> nat \<Rightarrow> slide list \<Rightarrow> error + (slide list \<times> nat)" where
  "add_fig_slides e [] idx total_n prs = Inr (prs, idx)"
| "add_fig_slides e (fg # figs) idx total_n prs =
     (let caption = fig_title fg
      in case ppt_add_graph_slide e fg caption idx total_n of
           Inl err \<Rightarrow> Inl err
         | Inr g \<Rightarrow>
             add_fig_slides e figs (idx + 1 + 1) total_n
               (prs @ [g, ppt_add_explain_slide caption (figure_summary_points fg) (idx + 1) total_n]))"

definition build_section_ppt_brand :: "env \<Rightarrow> registry \<Rightarrow> string \<Rightarrow> string \<Rightarrow> error + slide list" where
  "build_section_ppt_brand e st section_name title_text =
     (if \<not> pptx_ok e then
        Inl (RuntimeError ''python-pptx not installed. Please run: pip install python-pptx'')
      else
        (let figs = dict_get (SECTION_FIGS st) section_name;
             total_n = 1 + 2 * length figs + 1;
             idx = 1;
             prs = [ppt_add_title_slide title_text idx total_n]
         in case add_fig_slides e figs (idx + 1) total_n prs of
              Inl err \<Rightarrow> Inl err
            | Inr (prs', idx') \<Rightarrow>
                Inr (prs' @ [ConclusionSlide conclusion_points (ppt_add_slide_number idx' total_n)])))"

subsection \<open>Paginated bitmap-grid document\<close>

text \<open>An entry of \<^verbatim>\<open>images\<close>: width, height and the bitmap.\<close>

type_synonym image = "nat \<times> nat \<times> png"

text \<open>The five nested \<^verbatim>\<open>try\<close> blocks: the innermost call is outside any handler.\<close>

definition render_presets :: "env \<Rightarrow> fig \<Rightarrow> error + png" where
  "render_presets e fg =
     (case to_image e fg (Some (7, 6000, 3600)) of Some p \<Rightarrow> Inr p | None \<Rightarrow>
      (case to_image e fg (Some (6, 5500, 3400)) of Some p \<Rightarrow> Inr p | None \<Rightarrow>
       (case to_image e fg (Some (5, 5000, 3000)) of Some p \<Rightarrow> Inr p | None \<Rightarrow>
        (case to_image e fg (Some (4, 4500, 2800)) of Some p \<Rightarrow> Inr p | None \<Rightarrow>
         (case to_image e fg (Some (3, 4000, 2500)) of Some p \<Rightarrow> Inr p | None \<Rightarrow>
            Inl RenderError)))))"

text \<open>
  The second \<^verbatim>\<open>try\<close> block: read the bitmap; when reading raises, render the small preset
  and read that; when this raises too, the chart is skipped (\<open>None\<close>, the \<^verbatim>\<open>continue\<close>).
\<close>

definition read_image :: "env \<Rightarrow> fig \<Rightarrow> png \<Rightarrow> image option" where
  "read_image e fg png =
     (case image_size e png of
        Some (iw, ih) \<Rightarrow> Some (iw, ih, png)
      | None \<Rightarrow>
          (case to_image e fg (Some (1, 1200, 700)) of
             None \<Rightarrow> None
           | Some png_fallback \<Rightarrow>
               (case image_size e png_fallback of
                  Some (iw, ih) \<Rightarrow> Some (iw, ih, png_fallback)
                | None \<Rightarrow> None)))"

fun collect_images :: "env \<Rightarrow> fig list \<Rightarrow> image list \<Rightarrow> error + image list" where
  "collect_images e [] images = Inr images"
| "collect_images e (fg # figs) images =
     (case render_presets e fg of
        Inl err \<Rightarrow> Inl err
      | Inr png \<Rightarrow>
          (case read_image e fg png of
             Some im \<Rightarrow> collect_images e figs (images @ [im])
           | None \<Rightarrow> collect_images e figs images))"

text \<open>The \<^verbatim>\<open>if/elif\<close> chain on \<^verbatim>\<open>n = len(images)\<close>, giving (cols, rows).\<close>

definition grid_dims :: "nat \<Rightarrow> nat \<times> nat" where
  "grid_dims n =
     (if n = 1 then (1, 1)
      else if n = 2 \<or> n = 3 then (2, 2)
      else if n = 4 then (2, 2)
      else if n = 5 \<or> n = 6 then (3, 2)
      else if n = 7 \<or> n = 8 \<or> n = 9 then (3, 3)
      else (3, 3))"

text \<open>
  The two nested \<^verbatim>\<open>for\<close> loops that draw the grid. A drawn cell is (row, column, image);
  the inner loop stops (\<^verbatim>\<open>break\<close>) once \<^verbatim>\<open>idx >= n\<close>, the outer loop goes on.
\<close>

type_synonym cell = "nat \<times> nat \<times> image"

fun place_row :: "image list \<Rightarrow> nat \<Rightarrow> nat list \<Rightarrow> nat \<Rightarrow> cell list \<Rightarrow> nat \<times> cell list" where
  "place_row images r [] idx drawn = (idx, drawn)"
| "place_row images r (ccol # rest) idx drawn =
     (if length images \<le> idx then (idx, drawn)
      else place_row images r rest (idx + 1) (drawn @ [(r, ccol, images ! idx)]))"

fun place_rows :: "image list \<Rightarrow> nat \<Rightarrow> nat list \<Rightarrow> nat \<Rightarrow> cell list \<Rightarrow> nat \<times> cell list" where
  "place_rows images cols [] idx drawn = (idx, drawn)"
| "place_rows images cols (r # rest) idx drawn =
     (case place_row images r [0..<cols] idx drawn of
        (idx', drawn') \<Rightarrow> place_rows images cols rest idx' drawn')"

definition place_grid :: "image list \<Rightarrow> cell list" where
  "place_grid images =
     (case grid_dims (length images) of
        (cols, rows) \<Rightarrow> snd (place_rows images cols [0..<rows] 0 []))"

text \<open>
  The page: its title, the card groups drawn (those with at least one card), the grid
  shape when the chart block ran, and the drawn cells. Coordinates, fonts and logos are
  not modelled.
\<close>

record page =
  pg_title :: string
  pg_cards :: "card_group list"
  pg_grid :: "(nat \<times> nat) option"
  pg_cells :: "cell list"

definition build_section_pdf :: "env \<Rightarrow> registry \<Rightarrow> string \<Rightarrow> string \<Rightarrow> error + page" where
  "build_section_pdf e st section_name title_text =
     (let figs = dict_get (SECTION_FIGS st) section_name;
          cards_data = dict_get (SECTION_CARDS st) section_name;
          drawn_cards = filter (\<lambda>g. cg_cards g \<noteq> []) cards_data
      in if figs \<noteq> [] then
           (case collect_images e figs [] of
              Inl err \<Rightarrow> Inl err
            | Inr images \<Rightarrow>
                Inr \<lparr>pg_title = title_text, pg_cards = drawn_cards,
                     pg_grid = Some (grid_dims (length images)),
                     pg_cells = place_grid images\<rparr>)
         else Inr \<lparr>pg_title = title_text, pg_cards = drawn_cards, pg_grid = None, pg_cells = []\<rparr>)"

subsection \<open>Report aggregator\<close>

text \<open>
  \<^verbatim>\<open>build_report_pdf_same_style\<close> iterates over the name \<^verbatim>\<open>section_order\<close>, which is the
  module-level list assigned in the report tab before the export row is drawn.
\<close>

definition section_order :: "string list" where
  "section_order =
     [''Overview'', ''Energy Sources'', ''Solar Savings'', ''Expenses'',
      ''Production vs Consumption'', ''Gas Consumption'', ''Comparison'']"

definition report_collect_figs :: "registry \<Rightarrow> (string \<times> fig) list" where
  "report_collect_figs st =
     (let figs_report = dict_get (SECTION_FIGS st) ''Report''
      in if figs_report \<noteq> [] then map (\<lambda>f. (''Report'', f)) figs_report
         else concat (map (\<lambda>sec. map (\<lambda>f. (sec, f)) (dict_get (SECTION_FIGS st) sec)) section_order))"

text \<open>The loop over the sections: the pages written so far are the accumulator.\<close>

fun report_pages :: "env \<Rightarrow> registry \<Rightarrow> string list \<Rightarrow> page list \<Rightarrow> error + page list" where
  "report_pages e st [] writer = Inr writer"
| "report_pages e st (sec # secs) writer =
     (if dict_get (SECTION_FIGS st) sec = [] then report_pages e st secs writer
      else
        (case build_section_pdf e st sec (sec @ '' '' @ em_dash @ '' Powerhouse Dashboard'') of
           Inl err \<Rightarrow> Inl err
         | Inr pg \<Rightarrow> report_pages e st secs (writer @ [pg])))"

definition no_charts_error :: error where
  "no_charts_error =
     RuntimeError ''No charts found to export. Open tabs once, or ensure SECTION_FIGS is populated.''"

definition build_report_pdf_same_style :: "env \<Rightarrow> registry \<Rightarrow> string \<Rightarrow> error + page list" where
  "build_report_pdf_same_style e st title_text =
     (if \<not> pdf_merge_ok e then Inl (NameError ''PdfWriter'')
      else
        (case report_pages e st section_order [] of
           Inl err \<Rightarrow> Inl err
         | Inr writer \<Rightarrow> if writer = [] then Inl no_charts_error else Inr writer))"

text \<open>
  What an exporter of section \<open>S\<close> and the capture calls can observe of a registry:
  the current-section slot and the two lists of \<open>S\<close>.
\<close>

definition same_view :: "string \<Rightarrow> registry \<Rightarrow> registry \<Rightarrow> bool" where
  "same_view S st st' \<longleftrightarrow>
     CURRENT_SECTION st = CURRENT_SECTION st'
     \<and> dict_get (SECTION_FIGS st) S = dict_get (SECTION_FIGS st') S
     \<and> dict_get (SECTION_CARDS st) S = dict_get (SECTION_CARDS st') S"

subsection \<open>Sample data\<close>

definition demo_trace :: trace where
  "demo_trace =
     \<lparr>tr_type = ''bar'', tr_name = None,
      tr_x = Some [XDate 2024 Jan, XDate 2024 Feb, XDate 2024 Mar],
      tr_y = Some [Num 10, Num 50, Num 30],
      tr_labels = None, tr_values = None\<rparr>"

definition demo_fig :: fig where
  "demo_fig = \<lparr>fig_title = Some ''Generation'', fig_data = [demo_trace]\<rparr>"

definition bare_fig :: fig where
  "bare_fig = \<lparr>fig_title = None, fig_data = []\<rparr>"

definition demo_card :: card where
  "demo_card = \<lparr>card_label = ''Total kWh'', card_value = ''1,200'', card_delta = ''+5%'',
                 card_delta_color = ''normal''\<rparr>"

text \<open>A registry after one render pass of the Overview tab.\<close>

definition demo_registry :: registry where
  "demo_registry =
     run [Begin ''Overview'', CaptureCards [demo_card] ''Yearly Highlights'', CaptureFig demo_fig]
       registry_init"

text \<open>The image drawn in a cell.\<close>

fun cell_image :: "cell \<Rightarrow> image" where
  "cell_image (r, ccol, im) = im"

text \<open>An environment in which every library is present and every rendering succeeds.\<close>

definition demo_env :: env where
  "demo_env =
     \<lparr>pptx_ok = True, docx_ok = True, pdf_merge_ok = True,
      to_image = (\<lambda>fg p. Some ''png''),
      image_size = (\<lambda>p. Some (1280, 720))\<rparr>"

definition ten_images :: "image list" where
  "ten_images =
     [(10, 1, ''a''), (10, 2, ''b''), (10, 3, ''c''), (10, 4, ''d''), (10, 5, ''e''),
      (10, 6, ''f''), (10, 7, ''g''), (10, 8, ''h''), (10, 9, ''i''), (10, 10, ''j'')]"

text \<open>
  A renderer that raises on the figure without title and traces, whatever the preset,
  and renders every other figure; every bitmap can be read.
\<close>

definition failing_env :: env where
  "failing_env =
     \<lparr>pptx_ok = True, docx_ok = True, pdf_merge_ok = True,
      to_image = (\<lambda>fg p. if fg = bare_fig then None else Some ''png''),
      image_size = (\<lambda>p. Some (1280, 720))\<rparr>"

text \<open>A renderer that raises on the two largest presets only.\<close>

definition third_preset_env :: env where
  "third_preset_env =
     \<lparr>pptx_ok = True, docx_ok = True, pdf_merge_ok = True,
      to_image = (\<lambda>fg p. if p = Some (7, 6000, 3600) \<or> p = Some (6, 5500, 3400) then None
                          else if p = Some (5, 5000, 3000) then Some ''png5'' else Some ''small''),
      image_size = (\<lambda>p. Some (1280, 720))\<rparr>"

text \<open>A render pass of the Overview tab that captured two charts.\<close>

definition two_chart_registry :: registry where
  "two_chart_registry =
     run [Begin ''Overview'', CaptureFig demo_fig, CaptureFig bare_fig] registry_init"

text \<open>
  The bitmap a chart slide shows: the first rendering, or the renderer's default when
  the first raises; \<open>None\<close> when both raise.
\<close>

definition slide_image :: "env \<Rightarrow> fig \<Rightarrow> png option" where
  "slide_image e fg =
     (case to_image e fg (Some (2, 1280, 720)) of Some png \<Rightarrow> Some png | None \<Rightarrow> to_image e fg None)"

text \<open>A render pass that captured three charts.\<close>

definition three_chart_registry :: registry where
  "three_chart_registry =
     run [Begin ''Overview'', CaptureFig demo_fig, CaptureFig bare_fig, CaptureFig demo_fig]
       registry_init"



section \<open>Properties\<close>

subsection \<open>Registry\<close>

lemma dict_get_upd_same: "dict_get (d(k \<mapsto> v)) k = v"
  by (simp add: dict_get_def)

lemma dict_get_upd_other: "k' \<noteq> k \<Longrightarrow> dict_get (d(k \<mapsto> v)) k' = dict_get d k'"
  by (simp add: dict_get_def)

lemma capture_fig_current: "CURRENT_SECTION (capture_fig f st) = CURRENT_SECTION st"
  by (simp add: capture_fig_def Let_def)

lemma capture_fig_active: "active_name (capture_fig f st) = active_name st"
  by (simp add: active_name_def capture_fig_current)

lemma capture_fig_figs_active:
  "dict_get (SECTION_FIGS (capture_fig f st)) (active_name st)
     = dict_get (SECTION_FIGS st) (active_name st) @ [f]"
  by (simp add: capture_fig_def Let_def dict_get_upd_same)

lemma capture_figs_active:
  "dict_get (SECTION_FIGS (capture_figs fs st)) (active_name st)
     = dict_get (SECTION_FIGS st) (active_name st) @ fs"
proof (induction fs arbitrary: st)
  case Nil
  show ?case by simp
next
  case (Cons f fs)
  have "dict_get (SECTION_FIGS (capture_figs fs (capture_fig f st))) (active_name (capture_fig f st))
          = dict_get (SECTION_FIGS (capture_fig f st)) (active_name (capture_fig f st)) @ fs"
    by (rule Cons.IH)
  then show ?case
    by (simp add: capture_fig_active capture_fig_figs_active)
qed

lemma begin_section_active: "name \<noteq> [] \<Longrightarrow> active_name (begin_section name st) = name"
  by (simp add: active_name_def begin_section_def)

lemma begin_section_figs_same: "dict_get (SECTION_FIGS (begin_section name st)) name = []"
  by (simp add: begin_section_def dict_get_upd_same)

lemma begin_section_cards_same: "dict_get (SECTION_CARDS (begin_section name st)) name = []"
  by (simp add: begin_section_def dict_get_upd_same)

text \<open>
  C5 (as amended). For every non-empty section name S and every list of N charts,
  \<^verbatim>\<open>begin_section(S)\<close> followed by the N \<^verbatim>\<open>capture_fig\<close> calls leaves
  \<^verbatim>\<open>SECTION_FIGS.get(S, [])\<close> equal to exactly those N charts, in call order, whatever the
  registry held before.
\<close>

theorem capture_after_begin_in_order:
  assumes "S \<noteq> []"
  shows "dict_get (SECTION_FIGS (capture_figs fs (begin_section S st))) S = fs
       \<and> length (dict_get (SECTION_FIGS (capture_figs fs (begin_section S st))) S) = length fs"
proof -
  have a: "active_name (begin_section S st) = S"
    using assms by (rule begin_section_active)
  have "dict_get (SECTION_FIGS (capture_figs fs (begin_section S st))) (active_name (begin_section S st))
          = dict_get (SECTION_FIGS (begin_section S st)) (active_name (begin_section S st)) @ fs"
    by (rule capture_figs_active)
  then have "dict_get (SECTION_FIGS (capture_figs fs (begin_section S st))) S = fs"
    by (simp add: a begin_section_figs_same)
  then show ?thesis by simp
qed

lemma same_view_exec: "same_view S st st' \<Longrightarrow> same_view S (exec_op o1 st) (exec_op o1 st')"
  by (cases o1)
     (auto simp: same_view_def begin_section_def capture_fig_def capture_metric_cards_def
        active_name_def dict_get_def Let_def)

lemma same_view_run: "same_view S st st' \<Longrightarrow> same_view S (run ops st) (run ops st')"
  by (induction ops arbitrary: st st') (simp_all add: same_view_exec)

lemma same_view_begin: "same_view S (begin_section S st) (begin_section S st')"
  by (simp add: same_view_def begin_section_def dict_get_def)

text \<open>
  C4. Beginning a section \<open>S\<close> again empties its chart list and its card-group list
  together, and whatever is captured afterwards, the two lists of \<open>S\<close> do not depend on
  the registry that \<^verbatim>\<open>begin_section\<close> found: nothing of an earlier pass survives, so the
  charts and card groups an exporter reads for \<open>S\<close> all come from the operations after
  the same \<^verbatim>\<open>begin_section(S)\<close>.
\<close>

theorem begin_section_clears_both:
  "dict_get (SECTION_FIGS (begin_section S st)) S = []
   \<and> dict_get (SECTION_CARDS (begin_section S st)) S = []
   \<and> dict_get (SECTION_FIGS (run ops (begin_section S st))) S
       = dict_get (SECTION_FIGS (run ops (begin_section S st'))) S
   \<and> dict_get (SECTION_CARDS (run ops (begin_section S st))) S
       = dict_get (SECTION_CARDS (run ops (begin_section S st'))) S"
proof -
  have "same_view S (run ops (begin_section S st)) (run ops (begin_section S st'))"
    by (rule same_view_run [OF same_view_begin])
  then show ?thesis
    by (simp add: same_view_def begin_section_figs_same begin_section_cards_same)
qed

lemma begin_section_other_figs: "A \<noteq> B \<Longrightarrow> SECTION_FIGS (begin_section B st) A = SECTION_FIGS st A"
  by (simp add: begin_section_def)

lemma begin_section_other_cards: "A \<noteq> B \<Longrightarrow> SECTION_CARDS (begin_section B st) A = SECTION_CARDS st A"
  by (simp add: begin_section_def)

lemma begin_section_get_figs: "A \<noteq> B \<Longrightarrow> dict_get (SECTION_FIGS (begin_section B st)) A = dict_get (SECTION_FIGS st) A"
  by (simp add: dict_get_def begin_section_other_figs)

lemma report_collect_figs_frame:
  assumes "B \<notin> set section_order" and "B \<noteq> ''Report''"
  shows "report_collect_figs (begin_section B st) = report_collect_figs st"
proof -
  have r: "dict_get (SECTION_FIGS (begin_section B st)) ''Report'' = dict_get (SECTION_FIGS st) ''Report''"
    using assms(2) by (simp add: begin_section_get_figs)
  have "dict_get (SECTION_FIGS (begin_section B st)) sec = dict_get (SECTION_FIGS st) sec"
    if "sec \<in> set section_order" for sec
  proof -
    from that assms(1) have "sec \<noteq> B" by blast
    then show ?thesis by (rule begin_section_get_figs)
  qed
  then have m: "map (\<lambda>sec. map (\<lambda>f. (sec, f)) (dict_get (SECTION_FIGS (begin_section B st)) sec)) section_order
           = map (\<lambda>sec. map (\<lambda>f. (sec, f)) (dict_get (SECTION_FIGS st) sec)) section_order"
    by (intro map_cong) simp_all
  show ?thesis
    unfolding report_collect_figs_def Let_def r m by (rule refl)
qed

text \<open>
  C10. For distinct section names \<open>A\<close> and \<open>B\<close>, \<^verbatim>\<open>begin_section(B)\<close> leaves the chart
  list and the card-group list of \<open>A\<close> as they were and points the current-section slot
  to \<open>B\<close>; beginning a section outside the consolidated order leaves what
  \<^verbatim>\<open>_report_collect_figs\<close> reads unchanged.
\<close>

theorem begin_section_frame:
  assumes "A \<noteq> B"
  shows "SECTION_FIGS (begin_section B st) A = SECTION_FIGS st A
       \<and> SECTION_CARDS (begin_section B st) A = SECTION_CARDS st A
       \<and> dict_get (SECTION_FIGS (begin_section B st)) A = dict_get (SECTION_FIGS st) A
       \<and> dict_get (SECTION_CARDS (begin_section B st)) A = dict_get (SECTION_CARDS st) A
       \<and> CURRENT_SECTION (begin_section B st) = B
       \<and> (B \<notin> set section_order \<and> B \<noteq> ''Report''
            \<longrightarrow> report_collect_figs (begin_section B st) = report_collect_figs st)"
  using assms
  by (simp add: begin_section_other_figs begin_section_other_cards dict_get_def
        report_collect_figs_frame)
     (simp add: begin_section_def)

theorem begin_section_clears_both_witness:
  "dict_get (SECTION_FIGS demo_registry) ''Overview'' = [demo_fig]
   \<and> dict_get (SECTION_FIGS (begin_section ''Overview'' demo_registry)) ''Overview'' = []
   \<and> dict_get (SECTION_CARDS (begin_section ''Overview'' demo_registry)) ''Overview'' = []
   \<and> dict_get (SECTION_FIGS (run [CaptureFig bare_fig] (begin_section ''Overview'' demo_registry)))
        ''Overview'' = [bare_fig]"
  using begin_section_clears_both [of "''Overview''" demo_registry "[CaptureFig bare_fig]" registry_init]
  by (simp add: demo_registry_def registry_init_def begin_section_def capture_fig_def
        capture_metric_cards_def active_name_def dict_get_def Let_def)

theorem begin_section_frame_witness:
  "''Overview'' \<noteq> ''Forecasting''
   \<and> dict_get (SECTION_FIGS (begin_section ''Forecasting'' demo_registry)) ''Overview'' = [demo_fig]
   \<and> CURRENT_SECTION (begin_section ''Forecasting'' demo_registry) = ''Forecasting''
   \<and> ''Forecasting'' \<notin> set section_order \<and> ''Forecasting'' \<noteq> ''Report''
   \<and> report_collect_figs (begin_section ''Forecasting'' demo_registry)
        = report_collect_figs demo_registry"
  using begin_section_frame [of "''Overview''" "''Forecasting''" demo_registry]
  by (simp add: demo_registry_def registry_init_def begin_section_def capture_fig_def
        capture_metric_cards_def active_name_def dict_get_def Let_def section_order_def)

theorem capture_after_begin_in_order_witness:
  "''Overview'' \<noteq> []
   \<and> dict_get (SECTION_FIGS (capture_figs [demo_fig, bare_fig] (begin_section ''Overview'' demo_registry)))
        ''Overview'' = [demo_fig, bare_fig]"
  using capture_after_begin_in_order [of "''Overview''" "[demo_fig, bare_fig]" demo_registry]
  by simp

text \<open>
  C5 as stated fails for the empty section name: after \<^verbatim>\<open>begin_section("")\<close> the capture
  goes to the bucket "Page", and reading the section "" returns no chart.
\<close>

theorem capture_after_begin_empty_name_counterexample:
  "dict_get (SECTION_FIGS (capture_figs [demo_fig] (begin_section [] registry_init))) [] = []
   \<and> dict_get (SECTION_FIGS (capture_figs [demo_fig] (begin_section [] registry_init))) ''Page''
       = [demo_fig]
   \<and> length (dict_get (SECTION_FIGS (capture_figs [demo_fig] (begin_section [] registry_init))) [])
       \<noteq> length [demo_fig]"
  by (simp add: registry_init_def begin_section_def capture_fig_def active_name_def dict_get_def
        Let_def)

subsection \<open>Grid packing\<close>

lemma place_row_idx:
  "fst (place_row images r cs idx drawn)
     = (if length images \<le> idx then idx else min (length images) (idx + length cs))"
  by (induction cs arbitrary: idx drawn) auto

lemma place_row_images:
  "map cell_image (snd (place_row images r cs idx drawn))
     = map cell_image drawn @ take (length cs) (drop idx images)"
proof (induction cs arbitrary: idx drawn)
  case Nil
  show ?case by simp
next
  case (Cons c cs)
  show ?case
  proof (cases "length images \<le> idx")
    case True
    then show ?thesis by simp
  next
    case False
    then have "images ! idx # drop (Suc idx) images = drop idx images"
      by (simp add: Cons_nth_drop_Suc)
    then have "take (Suc (length cs)) (drop idx images)
                 = images ! idx # take (length cs) (drop (Suc idx) images)"
      by (metis take_Suc_Cons)
    with False Cons.IH [of "Suc idx" "drawn @ [(r, c, images ! idx)]"] show ?thesis
      by simp
  qed
qed

lemma place_rows_images:
  "map cell_image (snd (place_rows images cols rs idx drawn))
     = map cell_image drawn @ take (cols * length rs) (drop idx images)"
proof (induction rs arbitrary: idx drawn)
  case Nil
  show ?case by simp
next
  case (Cons r rs)
  obtain idx' drawn' where pr: "place_row images r [0..<cols] idx drawn = (idx', drawn')"
    by (cases "place_row images r [0..<cols] idx drawn")
  have i: "idx' = (if length images \<le> idx then idx else min (length images) (idx + cols))"
    using place_row_idx [of images r "[0..<cols]" idx drawn] pr by simp
  have d: "map cell_image drawn' = map cell_image drawn @ take cols (drop idx images)"
    using place_row_images [of images r "[0..<cols]" idx drawn] pr by simp
  have "take cols (drop idx images) @ take (cols * length rs) (drop idx' images)
          = take (cols + cols * length rs) (drop idx images)"
  proof (cases "idx + cols \<le> length images")
    case True
    then have "idx' = idx + cols" using i by (auto simp: min_def)
    then show ?thesis by (simp add: take_add add.commute)
  next
    case False
    then have "length images \<le> idx'" using i by (auto simp: min_def)
    with False show ?thesis by simp
  qed
  with Cons.IH [of idx' drawn'] pr d show ?case by simp
qed

lemma place_grid_images:
  "map cell_image (place_grid images)
     = take (fst (grid_dims (length images)) * snd (grid_dims (length images))) images"
proof -
  obtain cols rows where g: "grid_dims (length images) = (cols, rows)"
    by (cases "grid_dims (length images)")
  show ?thesis
    using place_rows_images [of images cols "[0..<rows]" 0 "[]"]
    by (simp add: place_grid_def g)
qed

lemma grid_dims_area: "fst (grid_dims n) * snd (grid_dims n) \<le> 9"
  by (simp add: grid_dims_def)

lemma grid_dims_fits: "n \<le> 9 \<Longrightarrow> 0 < n \<Longrightarrow> n \<le> fst (grid_dims n) * snd (grid_dims n)"
  by (simp add: grid_dims_def)

lemma place_row_cells:
  "cell \<in> set (snd (place_row images r cs idx drawn))
     \<Longrightarrow> cell \<in> set drawn \<or> (fst cell = r \<and> fst (snd cell) \<in> set cs)"
proof (induction cs arbitrary: idx drawn)
  case Nil
  then show ?case by simp
next
  case (Cons c cs)
  show ?case
  proof (cases "length images \<le> idx")
    case True
    with Cons.prems show ?thesis by simp
  next
    case False
    with Cons.prems
    have "cell \<in> set (snd (place_row images r cs (idx + 1) (drawn @ [(r, c, images ! idx)])))"
      by simp
    then have "cell \<in> set (drawn @ [(r, c, images ! idx)])
                 \<or> (fst cell = r \<and> fst (snd cell) \<in> set cs)"
      by (rule Cons.IH)
    then show ?thesis by auto
  qed
qed

lemma place_rows_cells:
  "cell \<in> set (snd (place_rows images cols rs idx drawn))
     \<Longrightarrow> cell \<in> set drawn \<or> (fst cell \<in> set rs \<and> fst (snd cell) < cols)"
proof (induction rs arbitrary: idx drawn)
  case Nil
  then show ?case by simp
next
  case (Cons r rs)
  obtain idx' drawn' where pr: "place_row images r [0..<cols] idx drawn = (idx', drawn')"
    by (cases "place_row images r [0..<cols] idx drawn")
  from Cons.prems pr have "cell \<in> set (snd (place_rows images cols rs idx' drawn'))"
    by simp
  then have "cell \<in> set drawn' \<or> (fst cell \<in> set rs \<and> fst (snd cell) < cols)"
    by (rule Cons.IH)
  moreover have "cell \<in> set drawn \<or> (fst cell = r \<and> fst (snd cell) \<in> set [0..<cols])"
    if "cell \<in> set drawn'"
    using place_row_cells [of cell images r "[0..<cols]" idx drawn] pr that by simp
  ultimately show ?case by auto
qed

lemma place_grid_cells:
  "cell \<in> set (place_grid images)
     \<Longrightarrow> fst cell < snd (grid_dims (length images))
         \<and> fst (snd cell) < fst (grid_dims (length images))"
proof -
  assume c: "cell \<in> set (place_grid images)"
  obtain cols rows where g: "grid_dims (length images) = (cols, rows)"
    by (cases "grid_dims (length images)")
  from c g have "cell \<in> set (snd (place_rows images cols [0..<rows] 0 []))"
    by (simp add: place_grid_def)
  from place_rows_cells [OF this] show ?thesis
    by (simp add: g)
qed

lemma build_section_pdf_charts:
  assumes "dict_get (SECTION_FIGS st) s \<noteq> []"
    and "collect_images e (dict_get (SECTION_FIGS st) s) [] = Inr images"
  shows "build_section_pdf e st s t =
           Inr \<lparr>pg_title = t,
                pg_cards = filter (\<lambda>g. cg_cards g \<noteq> []) (dict_get (SECTION_CARDS st) s),
                pg_grid = Some (grid_dims (length images)),
                pg_cells = place_grid images\<rparr>"
  using assms by (simp add: build_section_pdf_def Let_def)

text \<open>
  C1. With \<open>n\<close> successfully rasterized images the grid is 1 by 1 for \<open>n = 1\<close>, 2 by 2
  for \<open>n\<close> in 2..4, 3 columns by 2 rows for \<open>n\<close> in 5..6, 3 by 3 for \<open>n\<close> in 7..9 and
  for \<open>n > 9\<close>, where only the first nine images are drawn. The drawn images are the
  first columns times rows images in order, each in a cell of the grid, so at most
  columns times rows images are placed; this is the grid and the cells of the page that
  \<^verbatim>\<open>build_section_pdf\<close> returns.
\<close>

theorem grid_packing:
  "(length images = 1 \<longrightarrow> grid_dims (length images) = (1, 1))
   \<and> (length images \<in> {2, 3, 4} \<longrightarrow> grid_dims (length images) = (2, 2))
   \<and> (length images \<in> {5, 6} \<longrightarrow> grid_dims (length images) = (3, 2))
   \<and> (length images \<in> {7, 8, 9} \<longrightarrow> grid_dims (length images) = (3, 3))
   \<and> (9 < length images \<longrightarrow> grid_dims (length images) = (3, 3)
         \<and> map cell_image (place_grid images) = take 9 images)
   \<and> (0 < length images \<and> length images \<le> 9 \<longrightarrow> map cell_image (place_grid images) = images)
   \<and> map cell_image (place_grid images)
       = take (fst (grid_dims (length images)) * snd (grid_dims (length images))) images
   \<and> length (place_grid images) \<le> fst (grid_dims (length images)) * snd (grid_dims (length images))
   \<and> (\<forall>cell \<in> set (place_grid images).
         fst cell < snd (grid_dims (length images)) \<and> fst (snd cell) < fst (grid_dims (length images)))
   \<and> (dict_get (SECTION_FIGS st) s \<noteq> []
        \<and> collect_images e (dict_get (SECTION_FIGS st) s) [] = Inr images
       \<longrightarrow> build_section_pdf e st s t =
             Inr \<lparr>pg_title = t,
                  pg_cards = filter (\<lambda>g. cg_cards g \<noteq> []) (dict_get (SECTION_CARDS st) s),
                  pg_grid = Some (grid_dims (length images)),
                  pg_cells = place_grid images\<rparr>)"
proof -
  let ?n = "length images"
  let ?area = "fst (grid_dims ?n) * snd (grid_dims ?n)"
  have shape: "(?n = 1 \<longrightarrow> grid_dims ?n = (1, 1))
      \<and> (?n \<in> {2, 3, 4} \<longrightarrow> grid_dims ?n = (2, 2))
      \<and> (?n \<in> {5, 6} \<longrightarrow> grid_dims ?n = (3, 2))
      \<and> (?n \<in> {7, 8, 9} \<longrightarrow> grid_dims ?n = (3, 3))
      \<and> (9 < ?n \<longrightarrow> grid_dims ?n = (3, 3))"
    by (auto simp: grid_dims_def)
  have placed: "map cell_image (place_grid images) = take ?area images"
    by (rule place_grid_images)
  have len: "length (place_grid images) \<le> ?area"
  proof -
    have "length (map cell_image (place_grid images)) \<le> ?area"
      unfolding placed by simp
    then show ?thesis by simp
  qed
  have big: "map cell_image (place_grid images) = take 9 images" if "9 < ?n"
    using that placed shape by simp
  have small: "map cell_image (place_grid images) = images" if "0 < ?n \<and> ?n \<le> 9"
    using that placed grid_dims_fits [of ?n] by simp
  have cells: "\<forall>cell \<in> set (place_grid images).
         fst cell < snd (grid_dims ?n) \<and> fst (snd cell) < fst (grid_dims ?n)"
    using place_grid_cells by blast
  show ?thesis
    using shape placed len big small cells build_section_pdf_charts [of st s e images t]
    by blast
qed

theorem grid_packing_witness:
  "length ten_images = 10 \<and> grid_dims 10 = (3, 3)
   \<and> map cell_image (place_grid ten_images) = take 9 ten_images
   \<and> length (place_grid ten_images) \<le> 3 * 3
   \<and> dict_get (SECTION_FIGS demo_registry) ''Overview'' \<noteq> []
   \<and> collect_images demo_env (dict_get (SECTION_FIGS demo_registry) ''Overview'') []
       = Inr [(1280, 720, ''png'')]
   \<and> build_section_pdf demo_env demo_registry ''Overview'' ''Overview''
       = Inr \<lparr>pg_title = ''Overview'',
              pg_cards = [\<lparr>cg_cards = [demo_card], cg_title = ''Yearly Highlights''\<rparr>],
              pg_grid = Some (1, 1),
              pg_cells = [(0, 0, 1280, 720, ''png'')]\<rparr>"
proof -
  have l: "length ten_images = 10" by (simp add: ten_images_def)
  have f: "dict_get (SECTION_FIGS demo_registry) ''Overview'' = [demo_fig]"
    by (simp add: demo_registry_def registry_init_def begin_section_def capture_fig_def
        capture_metric_cards_def active_name_def dict_get_def Let_def)
  have c: "dict_get (SECTION_CARDS demo_registry) ''Overview''
             = [\<lparr>cg_cards = [demo_card], cg_title = ''Yearly Highlights''\<rparr>]"
    by (simp add: demo_registry_def registry_init_def begin_section_def capture_fig_def
        capture_metric_cards_def active_name_def dict_get_def Let_def)
  have ci: "collect_images demo_env [demo_fig] [] = Inr [(1280, 720, ''png'')]"
    by (simp add: render_presets_def read_image_def demo_env_def)
  have e0: "dict_get (SECTION_FIGS registry_init) [] = []"
    by (simp add: registry_init_def dict_get_def)
  have pg: "place_grid [(1280, 720, ''png'')] = [(0, 0, 1280, 720, ''png'')]"
    by (simp add: place_grid_def grid_dims_def)
  show ?thesis
    using grid_packing [of ten_images registry_init "[]" demo_env "[]"]
      grid_packing [of "[(1280, 720, ''png'')]" demo_registry "''Overview''" demo_env "''Overview''"]
    by (simp add: l f c ci pg e0 grid_dims_def del: collect_images.simps)
qed

subsection \<open>Rasterization and the empty page\<close>


lemma render_presets_all_fail:
  "render_presets e fg = Inl RenderError \<longleftrightarrow>
     to_image e fg (Some (7, 6000, 3600)) = None \<and> to_image e fg (Some (6, 5500, 3400)) = None
     \<and> to_image e fg (Some (5, 5000, 3000)) = None \<and> to_image e fg (Some (4, 4500, 2800)) = None
     \<and> to_image e fg (Some (3, 4000, 2500)) = None"
  by (auto simp: render_presets_def split: option.splits)

lemma render_presets_third:
  "to_image e fg (Some (7, 6000, 3600)) = None \<Longrightarrow> to_image e fg (Some (6, 5500, 3400)) = None
     \<Longrightarrow> to_image e fg (Some (5, 5000, 3000)) = Some p \<Longrightarrow> render_presets e fg = Inr p"
  by (simp add: render_presets_def)






subsection \<open>Report aggregator\<close>









text \<open>
  C7 at a failing input. The Overview section holds two charts; the renderer raises on
  the second one under every preset. The first chart renders, yet no page is produced:
  the fifth rendering call is outside any handler, so its exception leaves
  \<^verbatim>\<open>build_section_pdf\<close>, and the consolidated export with it. Where the first two presets
  fail and the third succeeds, the page holds the bitmap of the third.
\<close>

theorem build_section_pdf_aborts_on_failed_presets:
  "dict_get (SECTION_FIGS two_chart_registry) ''Overview'' = [demo_fig, bare_fig]
   \<and> render_presets failing_env demo_fig = Inr ''png''
   \<and> render_presets failing_env bare_fig = Inl RenderError
   \<and> build_section_pdf failing_env two_chart_registry ''Overview'' ''Overview'' = Inl RenderError
   \<and> build_report_pdf_same_style failing_env two_chart_registry ''Report'' = Inl RenderError
   \<and> build_section_pdf third_preset_env two_chart_registry ''Overview'' ''Overview''
       = Inr \<lparr>pg_title = ''Overview'', pg_cards = [], pg_grid = Some (2, 2),
              pg_cells = [(0, 0, 1280, 720, ''png5''), (0, 1, 1280, 720, ''png5'')]\<rparr>"
proof -
  have f: "dict_get (SECTION_FIGS two_chart_registry) ''Overview'' = [demo_fig, bare_fig]"
    and c: "dict_get (SECTION_CARDS two_chart_registry) ''Overview'' = []"
    by (simp_all add: two_chart_registry_def registry_init_def begin_section_def capture_fig_def
        active_name_def dict_get_def Let_def)
  have ne: "demo_fig \<noteq> bare_fig" by (simp add: demo_fig_def bare_fig_def)
  have r1: "render_presets failing_env demo_fig = Inr ''png''"
    using ne by (simp add: render_presets_def failing_env_def)
  have r2: "render_presets failing_env bare_fig = Inl RenderError"
    by (simp add: render_presets_def failing_env_def)
  have ri: "read_image failing_env fg p = Some (1280, 720, p)" for fg p
    by (simp add: read_image_def failing_env_def)
  have mo: "pdf_merge_ok failing_env" by (simp add: failing_env_def)
  have ci: "collect_images failing_env [demo_fig, bare_fig] [] = Inl RenderError"
    by (simp add: r1 r2 ri)
  have b: "build_section_pdf failing_env two_chart_registry ''Overview'' t = Inl RenderError" for t
    by (simp add: build_section_pdf_def f ci del: collect_images.simps)
  have o: "dict_get (SECTION_FIGS two_chart_registry) ''Overview'' \<noteq> []" by (simp add: f)
  have rp: "build_report_pdf_same_style failing_env two_chart_registry ''Report'' = Inl RenderError"
    by (simp add: build_report_pdf_same_style_def section_order_def o b mo)
  have r3: "render_presets third_preset_env fg = Inr ''png5''" for fg
    by (simp add: render_presets_def third_preset_env_def)
  have ri3: "read_image third_preset_env fg p = Some (1280, 720, p)" for fg p
    by (simp add: read_image_def third_preset_env_def)
  have ci3: "collect_images third_preset_env [demo_fig, bare_fig] []
               = Inr [(1280, 720, ''png5''), (1280, 720, ''png5'')]"
    by (simp add: r3 ri3)
  have pg: "place_grid [(1280, 720, ''png5''), (1280, 720, ''png5'')]
              = [(0, 0, 1280, 720, ''png5''), (0, 1, 1280, 720, ''png5'')]"
    by (simp add: place_grid_def grid_dims_def upt_rec)
  have b3: "build_section_pdf third_preset_env two_chart_registry ''Overview'' ''Overview''
       = Inr \<lparr>pg_title = ''Overview'', pg_cards = [], pg_grid = Some (2, 2),
              pg_cells = [(0, 0, 1280, 720, ''png5''), (0, 1, 1280, 720, ''png5'')]\<rparr>"
    by (simp add: build_section_pdf_def f c ci3 pg grid_dims_def del: collect_images.simps)
  show ?thesis
    using f r1 r2 b rp b3 by simp
qed

subsection \<open>Slide deck\<close>

lemma ppt_add_graph_slide_image:
  "ppt_add_graph_slide e fg c i t =
     (case slide_image e fg of
        Some png \<Rightarrow> Inr (GraphSlide c png (ppt_add_slide_number i t))
      | None \<Rightarrow> Inl RenderError)"
  by (simp add: ppt_add_graph_slide_def slide_image_def split: option.splits)

lemma footer_explain: "footer (ppt_add_explain_slide c bs i t) = ppt_add_slide_number i t"
  by (simp add: ppt_add_explain_slide_def Let_def)

lemma kind_explain: "kind (ppt_add_explain_slide c bs i t) = KExplain"
  by (simp add: ppt_add_explain_slide_def Let_def)

lemma add_fig_slides_ok:
  "(\<And>fg. fg \<in> set figs \<Longrightarrow> slide_image e fg \<noteq> None) \<Longrightarrow>
   \<exists>new. add_fig_slides e figs idx t prs = Inr (prs @ new, idx + 2 * length figs)
     \<and> length new = 2 * length figs
     \<and> (\<forall>k < length figs.
           new ! (2 * k)
             = GraphSlide (fig_title (figs ! k)) (the (slide_image e (figs ! k)))
                 (ppt_add_slide_number (idx + 2 * k) t)
         \<and> new ! (2 * k + 1)
             = ppt_add_explain_slide (fig_title (figs ! k)) (figure_summary_points (figs ! k))
                 (idx + 2 * k + 1) t)"
proof (induction figs arbitrary: idx prs)
  case Nil
  show ?case by simp
next
  case (Cons fg figs)
  have "slide_image e fg \<noteq> None" by (rule Cons.prems) simp
  then obtain png where png: "slide_image e fg = Some png" by blast
  let ?g = "GraphSlide (fig_title fg) png (ppt_add_slide_number idx t)"
  let ?x = "ppt_add_explain_slide (fig_title fg) (figure_summary_points fg) (idx + 1) t"
  have "\<exists>new. add_fig_slides e figs (idx + 2) t (prs @ [?g, ?x])
            = Inr ((prs @ [?g, ?x]) @ new, (idx + 2) + 2 * length figs)
     \<and> length new = 2 * length figs
     \<and> (\<forall>k < length figs.
           new ! (2 * k)
             = GraphSlide (fig_title (figs ! k)) (the (slide_image e (figs ! k)))
                 (ppt_add_slide_number ((idx + 2) + 2 * k) t)
         \<and> new ! (2 * k + 1)
             = ppt_add_explain_slide (fig_title (figs ! k)) (figure_summary_points (figs ! k))
                 ((idx + 2) + 2 * k + 1) t)"
    by (rule Cons.IH) (simp add: Cons.prems)
  then obtain new where
    r: "add_fig_slides e figs (idx + 2) t (prs @ [?g, ?x])
          = Inr ((prs @ [?g, ?x]) @ new, (idx + 2) + 2 * length figs)"
    and l: "length new = 2 * length figs"
    and n: "\<And>k. k < length figs \<Longrightarrow>
           new ! (2 * k)
             = GraphSlide (fig_title (figs ! k)) (the (slide_image e (figs ! k)))
                 (ppt_add_slide_number ((idx + 2) + 2 * k) t)
         \<and> new ! (2 * k + 1)
             = ppt_add_explain_slide (fig_title (figs ! k)) (figure_summary_points (figs ! k))
                 ((idx + 2) + 2 * k + 1) t"
    by blast
  let ?new = "[?g, ?x] @ new"
  have 1: "add_fig_slides e (fg # figs) idx t prs
             = Inr (prs @ ?new, idx + 2 * length (fg # figs))"
    using r by (simp add: ppt_add_graph_slide_image png Let_def add.assoc)
  have 2: "length ?new = 2 * length (fg # figs)"
    using l by simp
  have 3: "?new ! (2 * k)
             = GraphSlide (fig_title ((fg # figs) ! k)) (the (slide_image e ((fg # figs) ! k)))
                 (ppt_add_slide_number (idx + 2 * k) t)
         \<and> ?new ! (2 * k + 1)
             = ppt_add_explain_slide (fig_title ((fg # figs) ! k))
                 (figure_summary_points ((fg # figs) ! k)) (idx + 2 * k + 1) t"
    if "k < length (fg # figs)" for k
  proof (cases k)
    case 0
    then show ?thesis by (simp add: png)
  next
    case (Suc j)
    with that have "j < length figs" by simp
    from n [OF this] Suc show ?thesis
      by (simp add: add.assoc add.commute add.left_commute)
  qed
  show ?case
    using 1 2 3 by blast
qed

lemma add_fig_slides_fail:
  "fg \<in> set figs \<Longrightarrow> slide_image e fg = None
     \<Longrightarrow> add_fig_slides e figs idx t prs = Inl RenderError"
proof (induction figs arbitrary: idx prs)
  case Nil
  then show ?case by simp
next
  case (Cons a figs)
  show ?case
  proof (cases "slide_image e a")
    case None
    then show ?thesis by (simp add: ppt_add_graph_slide_image Let_def)
  next
    case (Some png)
    with Cons.prems have "fg \<in> set figs" by auto
    then have "add_fig_slides e figs i t p = Inl RenderError" for i p
      using Cons.prems(2) by (rule Cons.IH)
    then show ?thesis by (simp add: ppt_add_graph_slide_image Some Let_def)
  qed
qed

lemma build_section_ppt_brand_ok:
  assumes f: "dict_get (SECTION_FIGS st) s = figs"
    and ok: "pptx_ok e"
    and r: "\<forall>fg \<in> set figs. slide_image e fg \<noteq> None"
  shows "\<exists>deck. build_section_ppt_brand e st s t = Inr deck
     \<and> length deck = 2 * length figs + 2
     \<and> deck ! 0 = TitleSlide t (ppt_add_slide_number 1 (2 * length figs + 2))
     \<and> (\<forall>k < length figs.
           deck ! (2 * k + 1)
             = GraphSlide (fig_title (figs ! k)) (the (slide_image e (figs ! k)))
                 (ppt_add_slide_number (2 * k + 2) (2 * length figs + 2))
         \<and> deck ! (2 * k + 2)
             = ppt_add_explain_slide (fig_title (figs ! k)) (figure_summary_points (figs ! k))
                 (2 * k + 3) (2 * length figs + 2))
     \<and> deck ! (2 * length figs + 1)
         = ConclusionSlide conclusion_points
             (ppt_add_slide_number (2 * length figs + 2) (2 * length figs + 2))"
proof -
  let ?T = "2 * length figs + 2"
  let ?t = "TitleSlide t (ppt_add_slide_number 1 ?T)"
  let ?c = "ConclusionSlide conclusion_points (ppt_add_slide_number ?T ?T)"
  from r have "\<And>fg. fg \<in> set figs \<Longrightarrow> slide_image e fg \<noteq> None" by blast
  from add_fig_slides_ok [where idx = 2 and t = ?T and prs = "[?t]", OF this]
  obtain new where
    a: "add_fig_slides e figs 2 ?T [?t] = Inr ([?t] @ new, 2 + 2 * length figs)"
    and l: "length new = 2 * length figs"
    and n: "\<And>k. k < length figs \<Longrightarrow>
           new ! (2 * k)
             = GraphSlide (fig_title (figs ! k)) (the (slide_image e (figs ! k)))
                 (ppt_add_slide_number (2 + 2 * k) ?T)
         \<and> new ! (2 * k + 1)
             = ppt_add_explain_slide (fig_title (figs ! k)) (figure_summary_points (figs ! k))
                 (2 + 2 * k + 1) ?T"
    by blast
  let ?deck = "[?t] @ new @ [?c]"
  have b: "build_section_ppt_brand e st s t = Inr ?deck"
  proof -
    have e1: "(1::nat) + 1 = 2" and e2: "1 + 2 * length figs + 1 = ?T" by simp_all
    show ?thesis
      unfolding build_section_ppt_brand_def Let_def ppt_add_title_slide_def f e1 e2 a
      using ok by (simp add: add.commute)
  qed
  have len: "length ?deck = ?T" using l by simp
  have t0: "?deck ! 0 = ?t" by simp
  have mid: "?deck ! (2 * k + 1)
             = GraphSlide (fig_title (figs ! k)) (the (slide_image e (figs ! k)))
                 (ppt_add_slide_number (2 * k + 2) ?T)
         \<and> ?deck ! (2 * k + 2)
             = ppt_add_explain_slide (fig_title (figs ! k)) (figure_summary_points (figs ! k))
                 (2 * k + 3) ?T"
    if "k < length figs" for k
  proof -
    from that l have i1: "2 * k < length new" and i2: "2 * k + 1 < length new" by simp_all
    have "?deck ! (2 * k + 1) = new ! (2 * k)"
      using i1 by (simp add: nth_append)
    moreover have "?deck ! (2 * k + 2) = new ! (2 * k + 1)"
      using i2 by (simp add: nth_append)
    moreover have "2 + 2 * k = 2 * k + 2" and "2 + 2 * k + 1 = 2 * k + 3" by simp_all
    ultimately show ?thesis using n [OF that] by (simp add: numeral_3_eq_3)
  qed
  have last: "?deck ! (2 * length figs + 1) = ?c"
    using l by (simp add: nth_append)
  show ?thesis
    using b len t0 mid last by blast
qed

text \<open>
  C2. With the presentation library present and every chart rendering, the exporter
  returns a deck of exactly 2N+2 slides for the N charts of the section: the title slide,
  then for the k-th captured chart its image slide followed by its explanation slide, then
  the conclusion slide. The total 2N+2 is fixed before the first slide and every footer
  reads "i / 2N+2" with i the 1-based position of the slide. Without the library the
  exporter raises its RuntimeError and builds nothing; when a chart cannot be rendered
  the renderer's exception leaves the exporter.
\<close>

theorem deck_slide_sequence:
  assumes "dict_get (SECTION_FIGS st) s = figs"
  shows "(pptx_ok e \<and> (\<forall>fg \<in> set figs. slide_image e fg \<noteq> None) \<longrightarrow>
      (\<exists>deck. build_section_ppt_brand e st s t = Inr deck
         \<and> length deck = 2 * length figs + 2
         \<and> deck ! 0 = TitleSlide t (ppt_add_slide_number 1 (2 * length figs + 2))
         \<and> (\<forall>k < length figs.
               deck ! (2 * k + 1)
                 = GraphSlide (fig_title (figs ! k)) (the (slide_image e (figs ! k)))
                     (ppt_add_slide_number (2 * k + 2) (2 * length figs + 2))
             \<and> deck ! (2 * k + 2)
                 = ppt_add_explain_slide (fig_title (figs ! k)) (figure_summary_points (figs ! k))
                     (2 * k + 3) (2 * length figs + 2))
         \<and> deck ! (2 * length figs + 1)
             = ConclusionSlide conclusion_points
                 (ppt_add_slide_number (2 * length figs + 2) (2 * length figs + 2))
         \<and> (\<forall>i < 2 * length figs + 2.
               footer (deck ! i) = ppt_add_slide_number (i + 1) (2 * length figs + 2))))
    \<and> (\<not> pptx_ok e \<longrightarrow> (\<exists>msg. build_section_ppt_brand e st s t = Inl (RuntimeError msg)))
    \<and> (pptx_ok e \<and> (\<exists>fg \<in> set figs. slide_image e fg = None)
         \<longrightarrow> build_section_ppt_brand e st s t = Inl RenderError)"
proof (intro conjI impI)
  assume h: "pptx_ok e \<and> (\<forall>fg \<in> set figs. slide_image e fg \<noteq> None)"
  let ?T = "2 * length figs + 2"
  from build_section_ppt_brand_ok [OF assms, of e t] h
  obtain deck where
    b: "build_section_ppt_brand e st s t = Inr deck"
    and len: "length deck = ?T"
    and t0: "deck ! 0 = TitleSlide t (ppt_add_slide_number 1 ?T)"
    and mid: "\<And>k. k < length figs \<Longrightarrow>
           deck ! (2 * k + 1)
             = GraphSlide (fig_title (figs ! k)) (the (slide_image e (figs ! k)))
                 (ppt_add_slide_number (2 * k + 2) ?T)
         \<and> deck ! (2 * k + 2)
             = ppt_add_explain_slide (fig_title (figs ! k)) (figure_summary_points (figs ! k))
                 (2 * k + 3) ?T"
    and last: "deck ! (2 * length figs + 1)
         = ConclusionSlide conclusion_points (ppt_add_slide_number ?T ?T)"
    by blast
  have foot: "footer (deck ! i) = ppt_add_slide_number (i + 1) ?T" if lt: "i < ?T" for i
  proof -
    consider "i = 0" | "i = 2 * length figs + 1"
      | k where "k < length figs" "i = 2 * k + 1"
      | k where "k < length figs" "i = 2 * k + 2"
    proof -
      have "i = 0 \<or> i = 2 * length figs + 1
          \<or> (\<exists>k < length figs. i = 2 * k + 1) \<or> (\<exists>k < length figs. i = 2 * k + 2)"
        using lt by presburger
      then show ?thesis using that by blast
    qed
    then show ?thesis
    proof cases
      case 1
      with t0 show ?thesis by simp
    next
      case 2
      with last show ?thesis by simp
    next
      case (3 k)
      with mid [of k] show ?thesis by simp
    next
      case (4 k)
      with mid [of k] show ?thesis by (simp add: footer_explain numeral_3_eq_3)
    qed
  qed
  show "\<exists>deck. build_section_ppt_brand e st s t = Inr deck
         \<and> length deck = 2 * length figs + 2
         \<and> deck ! 0 = TitleSlide t (ppt_add_slide_number 1 (2 * length figs + 2))
         \<and> (\<forall>k < length figs.
               deck ! (2 * k + 1)
                 = GraphSlide (fig_title (figs ! k)) (the (slide_image e (figs ! k)))
                     (ppt_add_slide_number (2 * k + 2) (2 * length figs + 2))
             \<and> deck ! (2 * k + 2)
                 = ppt_add_explain_slide (fig_title (figs ! k)) (figure_summary_points (figs ! k))
                     (2 * k + 3) (2 * length figs + 2))
         \<and> deck ! (2 * length figs + 1)
             = ConclusionSlide conclusion_points
                 (ppt_add_slide_number (2 * length figs + 2) (2 * length figs + 2))
         \<and> (\<forall>i < 2 * length figs + 2.
               footer (deck ! i) = ppt_add_slide_number (i + 1) (2 * length figs + 2))"
    using b len t0 mid last foot by blast
next
  assume "\<not> pptx_ok e"
  then show "\<exists>msg. build_section_ppt_brand e st s t = Inl (RuntimeError msg)"
    by (simp add: build_section_ppt_brand_def)
next
  assume h: "pptx_ok e \<and> (\<exists>fg \<in> set figs. slide_image e fg = None)"
  then obtain fg where "fg \<in> set figs" "slide_image e fg = None" by blast
  then have "add_fig_slides e figs i n p = Inl RenderError" for i n p
    by (rule add_fig_slides_fail)
  with h assms show "build_section_ppt_brand e st s t = Inl RenderError"
    by (simp add: build_section_ppt_brand_def Let_def)
qed

theorem deck_slide_sequence_witness:
  "dict_get (SECTION_FIGS three_chart_registry) ''Overview'' = [demo_fig, bare_fig, demo_fig]
   \<and> pptx_ok demo_env
   \<and> slide_image demo_env demo_fig \<noteq> None \<and> slide_image demo_env bare_fig \<noteq> None
   \<and> (\<exists>deck. build_section_ppt_brand demo_env three_chart_registry ''Overview'' ''Overview''
                = Inr deck
         \<and> length deck = 8
         \<and> kind (deck ! 0) = KTitle \<and> kind (deck ! 1) = KGraph \<and> kind (deck ! 2) = KExplain
         \<and> kind (deck ! 3) = KGraph \<and> kind (deck ! 4) = KExplain
         \<and> kind (deck ! 5) = KGraph \<and> kind (deck ! 6) = KExplain
         \<and> kind (deck ! 7) = KConclusion
         \<and> footer (deck ! 0) = ''1 / 8'' \<and> footer (deck ! 1) = ''2 / 8''
         \<and> footer (deck ! 2) = ''3 / 8'' \<and> footer (deck ! 3) = ''4 / 8''
         \<and> footer (deck ! 4) = ''5 / 8'' \<and> footer (deck ! 5) = ''6 / 8''
         \<and> footer (deck ! 6) = ''7 / 8'' \<and> footer (deck ! 7) = ''8 / 8'')"
proof -
  have f: "dict_get (SECTION_FIGS three_chart_registry) ''Overview'' = [demo_fig, bare_fig, demo_fig]"
    by (simp add: three_chart_registry_def registry_init_def begin_section_def capture_fig_def
        active_name_def dict_get_def Let_def)
  have ok: "pptx_ok demo_env" by (simp add: demo_env_def)
  have r1: "slide_image demo_env demo_fig \<noteq> None" and r2: "slide_image demo_env bare_fig \<noteq> None"
    by (simp_all add: slide_image_def demo_env_def)
  then have r: "\<forall>fg \<in> set [demo_fig, bare_fig, demo_fig]. slide_image demo_env fg \<noteq> None"
    by simp
  have n: "ppt_add_slide_number 1 8 = ''1 / 8''" "ppt_add_slide_number 2 8 = ''2 / 8''"
    "ppt_add_slide_number 3 8 = ''3 / 8''" "ppt_add_slide_number 4 8 = ''4 / 8''"
    "ppt_add_slide_number 5 8 = ''5 / 8''" "ppt_add_slide_number 6 8 = ''6 / 8''"
    "ppt_add_slide_number 7 8 = ''7 / 8''" "ppt_add_slide_number 8 8 = ''8 / 8''"
    by (simp_all add: ppt_add_slide_number_def digits.simps digit_char_def)
  from deck_slide_sequence [OF f, of demo_env "''Overview''"] ok r
  obtain deck where
    b: "build_section_ppt_brand demo_env three_chart_registry ''Overview'' ''Overview'' = Inr deck"
    and len: "length deck = 8"
    and t0: "deck ! 0 = TitleSlide ''Overview'' (ppt_add_slide_number 1 8)"
    and mid: "\<And>k. k < 3 \<Longrightarrow>
        deck ! (2 * k + 1)
          = GraphSlide (fig_title ([demo_fig, bare_fig, demo_fig] ! k))
              (the (slide_image demo_env ([demo_fig, bare_fig, demo_fig] ! k)))
              (ppt_add_slide_number (2 * k + 2) 8)
        \<and> deck ! (2 * k + 2)
          = ppt_add_explain_slide (fig_title ([demo_fig, bare_fig, demo_fig] ! k))
              (figure_summary_points ([demo_fig, bare_fig, demo_fig] ! k)) (2 * k + 3) 8"
    and last: "deck ! 7 = ConclusionSlide conclusion_points (ppt_add_slide_number 8 8)"
    and foot: "\<And>i. i < 8 \<Longrightarrow> footer (deck ! i) = ppt_add_slide_number (i + 1) 8"
    by auto
  have k0: "kind (deck ! 0) = KTitle \<and> kind (deck ! 7) = KConclusion"
    using t0 last by simp
  have k1: "kind (deck ! 1) = KGraph \<and> kind (deck ! 2) = KExplain"
    using mid [of 0] by (simp add: kind_explain numeral_2_eq_2)
  have k2: "kind (deck ! 3) = KGraph \<and> kind (deck ! 4) = KExplain"
    using mid [of 1] by (simp add: kind_explain)
  have k3: "kind (deck ! 5) = KGraph \<and> kind (deck ! 6) = KExplain"
    using mid [of 2] by (simp add: kind_explain)
  have f0: "footer (deck ! 0) = ''1 / 8''" using foot [of 0] n(1) by simp
  have f1: "footer (deck ! 1) = ''2 / 8''" using foot [of 1] n(2) by (simp add: numeral_2_eq_2)
  have f2: "footer (deck ! 2) = ''3 / 8''" using foot [of 2] n(3) by simp
  have f3: "footer (deck ! 3) = ''4 / 8''" using foot [of 3] n(4) by simp
  have f4: "footer (deck ! 4) = ''5 / 8''" using foot [of 4] n(5) by simp
  have f5: "footer (deck ! 5) = ''6 / 8''" using foot [of 5] n(6) by simp
  have f6: "footer (deck ! 6) = ''7 / 8''" using foot [of 6] n(7) by simp
  have f7: "footer (deck ! 7) = ''8 / 8''" using foot [of 7] n(8) by simp
  show ?thesis
    using f ok r1 r2 b len k0 k1 k2 k3 f0 f1 f2 f3 f4 f5 f6 f7 by blast
qed

subsection \<open>Series statistics\<close>






subsection \<open>Number formatting\<close>

















lemma not_digit_chars:
  "CHR ''.'' \<notin> set ''0123456789''" "CHR '','' \<notin> set ''0123456789''"
  by simp_all





subsection \<open>Narrative sentence of a numeric trace\<close>









subsection \<open>Narrative document\<close>










subsection \<open>Explanation bullets\<close>















end
